theory Spec2Isabelle
  imports Complex_Main "HOL-Library.Log_Nat"
begin

section \<open>The AudioCutter component\<close>

text \<open>
  The repository is one React component, \<^verbatim>\<open>AudioCutter\<close>, kept in two versions:
  \<^verbatim>\<open>src/app/components/AudioCutter.tsx\<close> and a second copy that starts playback as
  soon as the player is ready (its handlers carry the suffix \<open>_autoplay\<close> below where
  they differ). The component holds six \<^verbatim>\<open>useState\<close> cells, one effect keyed on
  \<^verbatim>\<open>audioFile\<close>, and the handlers \<^verbatim>\<open>handleFileChange\<close>, \<^verbatim>\<open>handlePlayPause\<close>,
  \<^verbatim>\<open>handleReset\<close> and \<^verbatim>\<open>handleTrim\<close>.

  JavaScript numbers are real numbers. Storing, comparing and resetting them is modelled
  as it is. The arithmetic of \<^verbatim>\<open>handleTrim\<close> is given twice: with exact results
  (\<open>startTime\<close>, \<open>endTime\<close>, \<open>trimBuffer\<close>, \<open>handleTrim\<close>), and with every result rounded
  to an IEEE double, as the code computes it (\<open>startTime64\<close>, \<open>endTime64\<close>,
  \<open>trimBuffer64\<close>, \<open>handleTrim64\<close>). Frame counts are settled on the rounded
  computation. A \<^verbatim>\<open>File\<close> and a \<^verbatim>\<open>WaveSurfer\<close> instance are modelled by their identity.
\<close>

type_synonym file_id = nat
type_synonym wavesurfer = nat

text \<open>The six state cells, in the order of their \<^verbatim>\<open>useState\<close> declarations. The cell
  \<^verbatim>\<open>end\<close> is written \<open>end'\<close>. \<^verbatim>\<open>null\<close> and \<^verbatim>\<open>undefined\<close> are both \<open>None\<close>: the code
  only ever tests these cells for truthiness.\<close>

record controller =
  audioFile :: "file_id option"
  waveSurferInstance :: "wavesurfer option"
  isPlaying :: bool
  duration :: real
  start :: real
  end' :: real

definition initial :: controller where
  "initial = \<lparr>audioFile = None, waveSurferInstance = None, isPlaying = False,
     duration = 0, start = 0, end' = 100\<rparr>"

text \<open>The calls the component makes on a WaveSurfer instance, in the order made.\<close>

datatype ws_call =
  Create wavesurfer
  | Stop wavesurfer
  | PlayPause wavesurfer
  | Play wavesurfer
  | Destroy wavesurfer

subsection \<open>State setters and player callbacks\<close>

text \<open>\<^verbatim>\<open>setStart\<close> and \<^verbatim>\<open>setEnd\<close> are the plain \<^verbatim>\<open>useState\<close> setters, handed to the two
  sliders as \<^verbatim>\<open>onChange\<close>: they store the value they are called with.\<close>

definition setStart :: "real \<Rightarrow> controller \<Rightarrow> controller" where
  "setStart v st = st\<lparr>start := v\<rparr>"

definition setEnd :: "real \<Rightarrow> controller \<Rightarrow> controller" where
  "setEnd v st = st\<lparr>end' := v\<rparr>"

text \<open>The \<^verbatim>\<open>'ready'\<close> callback: \<^verbatim>\<open>setDuration(wavesurfer.getDuration());
  setEnd(wavesurfer.getDuration())\<close>. The argument \<open>d\<close> is what \<^verbatim>\<open>getDuration()\<close>
  returns, in seconds; \<open>w\<close> is the instance the callback was registered on.\<close>

definition onReady :: "wavesurfer \<Rightarrow> real \<Rightarrow> controller \<Rightarrow> controller \<times> ws_call list" where
  "onReady w d st = (st\<lparr>duration := d, end' := d\<rparr>, [])"

definition onReady_autoplay ::
  "wavesurfer \<Rightarrow> real \<Rightarrow> controller \<Rightarrow> controller \<times> ws_call list" where
  "onReady_autoplay w d st = (st\<lparr>duration := d, end' := d, isPlaying := True\<rparr>, [Play w])"

text \<open>The \<^verbatim>\<open>'finish'\<close> callback.\<close>

definition onFinish :: "controller \<Rightarrow> controller" where
  "onFinish st = st\<lparr>isPlaying := False\<rparr>"

subsection \<open>Event handlers\<close>

text \<open>\<^verbatim>\<open>files[0]\<close>: \<^verbatim>\<open>undefined\<close> on an empty \<^verbatim>\<open>FileList\<close>.\<close>

definition item0 :: "file_id list \<Rightarrow> file_id option" where
  "item0 fs = (case fs of [] \<Rightarrow> None | f # _ \<Rightarrow> Some f)"

text \<open>\<^verbatim>\<open>if (waveSurferInstance) waveSurferInstance.stop()\<close>\<close>

definition stopCurrent :: "controller \<Rightarrow> ws_call list" where
  "stopCurrent st = (case waveSurferInstance st of None \<Rightarrow> [] | Some w \<Rightarrow> [Stop w])"

text \<open>\<^verbatim>\<open>handleFileChange\<close>; the argument is \<^verbatim>\<open>event.target.files\<close>, which may be
  \<^verbatim>\<open>null\<close>.\<close>

definition handleFileChange ::
  "file_id list option \<Rightarrow> controller \<Rightarrow> controller \<times> ws_call list" where
  "handleFileChange files st =
     (case files of
        None \<Rightarrow> (st, [])
      | Some fs \<Rightarrow>
          (st\<lparr>audioFile := item0 fs, start := 0, end' := 100, isPlaying := False\<rparr>,
           stopCurrent st))"

text \<open>The second copy resets \<^verbatim>\<open>isPlaying\<close> only when there is an instance to stop.\<close>

definition handleFileChange_autoplay ::
  "file_id list option \<Rightarrow> controller \<Rightarrow> controller \<times> ws_call list" where
  "handleFileChange_autoplay files st =
     (case files of
        None \<Rightarrow> (st, [])
      | Some fs \<Rightarrow>
          ((case waveSurferInstance st of
              None \<Rightarrow> st
            | Some w \<Rightarrow> st\<lparr>isPlaying := False\<rparr>)
             \<lparr>audioFile := item0 fs, start := 0, end' := 100\<rparr>,
           stopCurrent st))"

definition handlePlayPause :: "controller \<Rightarrow> controller \<times> ws_call list" where
  "handlePlayPause st =
     (case waveSurferInstance st of
        None \<Rightarrow> (st, [])
      | Some w \<Rightarrow> (st\<lparr>isPlaying := \<not> isPlaying st\<rparr>, [PlayPause w]))"

definition handleReset :: "controller \<Rightarrow> controller \<times> ws_call list" where
  "handleReset st =
     (case waveSurferInstance st of
        None \<Rightarrow> (st, [])
      | Some w \<Rightarrow>
          (st\<lparr>audioFile := None, duration := 0, start := 0, end' := 100,
              isPlaying := False\<rparr>,
           [Stop w]))"

text \<open>The selection in seconds, as \<^verbatim>\<open>handleTrim\<close> and the two slider labels compute it:
  \<^verbatim>\<open>(start / 100) * duration\<close> and \<^verbatim>\<open>(end / 100) * duration\<close>, here with exact
  quotient and product (\<open>startTime64\<close> and \<open>endTime64\<close> below round them).\<close>

definition startTime :: "controller \<Rightarrow> real" where
  "startTime st = (start st / 100) * duration st"

definition endTime :: "controller \<Rightarrow> real" where
  "endTime st = (end' st / 100) * duration st"

subsection \<open>The mounted component: state, effect and call log\<close>

text \<open>
  \<open>cleanup\<close> is the cleanup function the last run of the effect returned (it destroys the
  instance that run created), \<open>created\<close> counts the instances created so far and names
  the next one, \<open>calls\<close> logs the calls made on instances.
\<close>

record component =
  state :: controller
  cleanup :: "wavesurfer option"
  created :: nat
  calls :: "ws_call list"

definition mount :: component where
  "mount = \<lparr>state = initial, cleanup = None, created = 0, calls = []\<rparr>"

text \<open>
  The effect \<^verbatim>\<open>useEffect(() => {...}, [audioFile])\<close>: React first runs the cleanup of
  the previous run; the body then creates an instance when \<^verbatim>\<open>audioFile\<close> is set (the
  waveform container is rendered unconditionally, so \<^verbatim>\<open>waveformRef.current\<close> is set
  once mounted), stores it with \<^verbatim>\<open>setWaveSurferInstance\<close> and returns its
  \<^verbatim>\<open>destroy\<close> as the next cleanup. When \<^verbatim>\<open>audioFile\<close> is not set the body does
  nothing: \<^verbatim>\<open>waveSurferInstance\<close> keeps its value.
\<close>

definition useEffect_audioFile :: "component \<Rightarrow> component" where
  "useEffect_audioFile c =
     (let c1 = (case cleanup c of
                  None \<Rightarrow> c
                | Some w \<Rightarrow> c\<lparr>cleanup := None, calls := calls c @ [Destroy w]\<rparr>)
      in case audioFile (state c1) of
           None \<Rightarrow> c1
         | Some f \<Rightarrow>
             c1\<lparr>state := (state c1)\<lparr>waveSurferInstance := Some (created c1)\<rparr>,
                cleanup := Some (created c1),
                created := created c1 + 1,
                calls := calls c1 @ [Create (created c1)]\<rparr>)"

text \<open>After a handler ran, the effect runs again iff \<^verbatim>\<open>audioFile\<close> changed.\<close>

definition commit :: "file_id option \<Rightarrow> component \<Rightarrow> component" where
  "commit prev c = (if audioFile (state c) = prev then c else useEffect_audioFile c)"

text \<open>One handler or callback run on the mounted component: its state updates and its
  calls on instances take effect, then the render is committed.\<close>

definition handled :: "component \<Rightarrow> controller \<times> ws_call list \<Rightarrow> component" where
  "handled c r = commit (audioFile (state c)) (c\<lparr>state := fst r, calls := calls c @ snd r\<rparr>)"

text \<open>
  What can happen to the mounted component: the file input changes, the player instance
  \<open>w\<close> reports \<^verbatim>\<open>'ready'\<close> with its duration or \<^verbatim>\<open>'finish'\<close>, \<^verbatim>\<open>handlePlayPause\<close>
  or \<^verbatim>\<open>handleReset\<close> is called, a slider calls its \<^verbatim>\<open>onChange\<close>. The callbacks of
  an instance carry no check of their own that the instance is still the current one.
\<close>

datatype event =
  FileChange "file_id list option"
  | Ready wavesurfer real
  | Finish wavesurfer
  | PlayPauseClick
  | ResetClick
  | StartSlider real
  | EndSlider real

fun dispatch :: "event \<Rightarrow> component \<Rightarrow> component" where
  "dispatch (FileChange files) c = handled c (handleFileChange files (state c))"
| "dispatch (Ready w d) c = handled c (onReady w d (state c))"
| "dispatch (Finish w) c = handled c (onFinish (state c), [])"
| "dispatch PlayPauseClick c = handled c (handlePlayPause (state c))"
| "dispatch ResetClick c = handled c (handleReset (state c))"
| "dispatch (StartSlider v) c = handled c (setStart v (state c), [])"
| "dispatch (EndSlider v) c = handled c (setEnd v (state c), [])"

text \<open>The second copy has no \<^verbatim>\<open>handlePlayPause\<close>: a play/pause click does nothing to it.\<close>

fun dispatch_autoplay :: "event \<Rightarrow> component \<Rightarrow> component" where
  "dispatch_autoplay (FileChange files) c = handled c (handleFileChange_autoplay files (state c))"
| "dispatch_autoplay (Ready w d) c = handled c (onReady_autoplay w d (state c))"
| "dispatch_autoplay (Finish w) c = handled c (onFinish (state c), [])"
| "dispatch_autoplay PlayPauseClick c = c"
| "dispatch_autoplay ResetClick c = handled c (handleReset (state c))"
| "dispatch_autoplay (StartSlider v) c = handled c (setStart v (state c), [])"
| "dispatch_autoplay (EndSlider v) c = handled c (setEnd v (state c), [])"

text \<open>A run of events, oldest first.\<close>

fun run :: "event list \<Rightarrow> component \<Rightarrow> component" where
  "run [] c = c"
| "run (e # es) c = run es (dispatch e c)"

fun run_autoplay :: "event list \<Rightarrow> component \<Rightarrow> component" where
  "run_autoplay [] c = c"
| "run_autoplay (e # es) c = run_autoplay es (dispatch_autoplay e c)"

subsection \<open>Trimming: the Web Audio and File API operations used\<close>

text \<open>
  \<^verbatim>\<open>handleTrim\<close> calls the browser for a buffer (\<^verbatim>\<open>createBuffer\<close>), for the channel
  data (\<^verbatim>\<open>getChannelData\<close>, \<^verbatim>\<open>Float32Array.prototype.slice\<close>, \<^verbatim>\<open>copyToChannel\<close>) and
  for the file to download (\<^verbatim>\<open>new Blob\<close>). These are modelled as the Web Audio API,
  ECMAScript and the File API define them, errors included. Samples are real numbers.
\<close>

datatype dom_error = NotSupportedError | IndexSizeError | TypeError | EncodingError

text \<open>An \<^verbatim>\<open>AudioBuffer\<close>: \<open>frames\<close> is its \<^verbatim>\<open>length\<close> attribute, \<open>channelData\<close> holds one
  list of samples per channel.\<close>

record audio_buffer =
  sampleRate :: real
  frames :: nat
  channelData :: "real list list"

definition numberOfChannels :: "audio_buffer \<Rightarrow> nat" where
  "numberOfChannels b = length (channelData b)"


text \<open>ECMAScript \<^verbatim>\<open>ToIntegerOrInfinity\<close> on a finite number: truncation toward zero.\<close>

definition toIntegerOrInfinity :: "real \<Rightarrow> int" where
  "toIntegerOrInfinity x = (if 0 \<le> x then \<lfloor>x\<rfloor> else \<lceil>x\<rceil>)"

text \<open>Web IDL conversion of a number to \<^verbatim>\<open>unsigned long\<close>: truncate, then reduce
  modulo \<open>2^32\<close>.\<close>

definition toUnsignedLong :: "real \<Rightarrow> nat" where
  "toUnsignedLong x = nat (toIntegerOrInfinity x mod 2 ^ 32)"

text \<open>\<^verbatim>\<open>BaseAudioContext.createBuffer(numberOfChannels, length, sampleRate)\<close>: a
  \<^verbatim>\<open>NotSupportedError\<close> when an argument is zero or negative, otherwise a buffer of
  silence. A negative length is refused too: its conversion to \<^verbatim>\<open>unsigned long\<close> is a
  length no browser allocates. (The upper ends of the nominal ranges are
  implementation-defined; the channel count and sample rate \<^verbatim>\<open>handleTrim\<close> passes are
  those of a buffer the same context decoded.)\<close>


definition createBuffer :: "nat \<Rightarrow> real \<Rightarrow> real \<Rightarrow> dom_error + audio_buffer" where
  "createBuffer nch len sr =
     (let n = toUnsignedLong len
      in if nch = 0 \<or> len < 0 \<or> n = 0 \<or> sr \<le> 0 then Inl NotSupportedError
         else Inr \<lparr>sampleRate = sr, frames = n, channelData = replicate nch (replicate n 0)\<rparr>)"

text \<open>\<^verbatim>\<open>AudioBuffer.getChannelData(channel)\<close>\<close>

definition getChannelData :: "audio_buffer \<Rightarrow> nat \<Rightarrow> dom_error + real list" where
  "getChannelData b channel =
     (if channel < numberOfChannels b then Inr (channelData b ! channel)
      else Inl IndexSizeError)"

text \<open>\<^verbatim>\<open>%TypedArray%.prototype.slice(start, end)\<close>: both ends are truncated, a negative
  end counts from the back, and both are clamped to the array.\<close>

definition relativeIndex :: "int \<Rightarrow> real \<Rightarrow> int" where
  "relativeIndex len x =
     (let r = toIntegerOrInfinity x
      in if r < 0 then max (len + r) 0 else min r len)"

definition typedArraySlice :: "real list \<Rightarrow> real \<Rightarrow> real \<Rightarrow> real list" where
  "typedArraySlice xs s e =
     (let len = int (length xs);
          k = relativeIndex len s;
          final = relativeIndex len e;
          count = max (final - k) 0
      in take (nat count) (drop (nat k) xs))"

text \<open>\<^verbatim>\<open>AudioBuffer.copyToChannel(source, channelNumber)\<close> with the default offset 0:
  \<open>min (frames b) (length source)\<close> samples are copied, the rest of the channel is left
  as it was.\<close>

definition copyToChannel :: "audio_buffer \<Rightarrow> real list \<Rightarrow> nat \<Rightarrow> dom_error + audio_buffer" where
  "copyToChannel b source channelNumber =
     (if channelNumber < numberOfChannels b
      then (let n = min (frames b) (length source)
            in Inr (b\<lparr>channelData := (channelData b)
                 [channelNumber := take n source @ drop n (channelData b ! channelNumber)]\<rparr>))
      else Inl IndexSizeError)"

text \<open>The \<^verbatim>\<open>for (let channel = 0; channel < buffer.numberOfChannels; channel++)\<close> loop
  of \<^verbatim>\<open>handleTrim\<close>, from \<open>channel\<close> on.\<close>

function copyChannels ::
  "audio_buffer \<Rightarrow> real \<Rightarrow> real \<Rightarrow> nat \<Rightarrow> audio_buffer \<Rightarrow> dom_error + audio_buffer" where
  "copyChannels buffer startT endT channel trimmedBuffer =
     (if channel < numberOfChannels buffer
      then (case getChannelData buffer channel of
              Inl err \<Rightarrow> Inl err
            | Inr data \<Rightarrow>
                (case copyToChannel trimmedBuffer
                        (typedArraySlice data (startT * sampleRate buffer)
                           (endT * sampleRate buffer))
                        channel of
                   Inl err \<Rightarrow> Inl err
                 | Inr tb \<Rightarrow> copyChannels buffer startT endT (channel + 1) tb))
      else Inr trimmedBuffer)"
  by pat_completeness auto
termination
  by (relation "measure (\<lambda>(buffer, startT, endT, channel, tb). numberOfChannels buffer - channel)")
    auto

text \<open>The buffer \<^verbatim>\<open>handleTrim\<close> builds from the decoded one, with the exact product for
  its length.\<close>

definition trimBuffer :: "audio_buffer \<Rightarrow> real \<Rightarrow> real \<Rightarrow> dom_error + audio_buffer" where
  "trimBuffer buffer startT endT =
     (case createBuffer (numberOfChannels buffer) (sampleRate buffer * (endT - startT))
             (sampleRate buffer) of
        Inl err \<Rightarrow> Inl err
      | Inr trimmedBuffer \<Rightarrow> copyChannels buffer startT endT 0 trimmedBuffer)"

text \<open>
  \<^verbatim>\<open>new Blob(parts, {type})\<close>: the bytes of a part are its own bytes when it is a
  buffer source or a blob, its text when it is a string, and the text of its conversion
  to a string otherwise. An \<^verbatim>\<open>AudioBuffer\<close> is neither a buffer source nor a blob, and
  its conversion to a string is \<^verbatim>\<open>[object AudioBuffer]\<close>. Bytes are characters.
\<close>

datatype blob_part =
  BufferSource string
  | USVString string
  | AudioBufferObject audio_buffer

fun partBytes :: "blob_part \<Rightarrow> string" where
  "partBytes (BufferSource bytes) = bytes"
| "partBytes (USVString s) = s"
| "partBytes (AudioBufferObject b) = ''[object AudioBuffer]''"

record blob =
  content :: string
  mimeType :: string

definition newBlob :: "blob_part list \<Rightarrow> string \<Rightarrow> blob" where
  "newBlob parts ty = \<lparr>content = concat (map partBytes parts), mimeType = ty\<rparr>"

text \<open>The link \<^verbatim>\<open>handleTrim\<close> clicks: \<^verbatim>\<open>a.href\<close> is an object URL of the blob.\<close>

record download =
  href :: blob
  filename :: string

text \<open>
  What one call of \<^verbatim>\<open>handleTrim\<close> does: nothing (\<open>Skipped\<close>), throw to its caller
  (\<open>Thrown\<close>), log an error in the \<^verbatim>\<open>catch\<close> of its promise chain (\<open>Caught\<close>), or click
  the download link and start playing the trimmed buffer (\<open>Exported\<close>).
\<close>

datatype trim_outcome =
  Skipped
  | Thrown dom_error
  | Caught dom_error
  | Exported audio_buffer download

text \<open>
  \<^verbatim>\<open>handleTrim\<close>, with exact arithmetic. \<open>decodeAudioData f\<close> is what
  \<^verbatim>\<open>fetch(URL.createObjectURL(f))\<close>, \<^verbatim>\<open>arrayBuffer()\<close> and \<^verbatim>\<open>decodeAudioData\<close> yield for
  the file \<open>f\<close>. \<^verbatim>\<open>URL.createObjectURL\<close> throws a \<^verbatim>\<open>TypeError\<close> when its argument is not
  a blob; that call is made before the promise chain starts. The handler calls no state
  setter: the state it returns is the one it was given.
\<close>

definition handleTrim ::
  "(file_id \<Rightarrow> dom_error + audio_buffer) \<Rightarrow> controller \<Rightarrow> controller \<times> trim_outcome" where
  "handleTrim decodeAudioData st =
     (st,
      if waveSurferInstance st \<noteq> None \<and> duration st > 0
      then (case audioFile st of
              None \<Rightarrow> Thrown TypeError
            | Some f \<Rightarrow>
                (case decodeAudioData f of
                   Inl err \<Rightarrow> Caught err
                 | Inr buffer \<Rightarrow>
                     (case trimBuffer buffer (startTime st) (endTime st) of
                        Inl err \<Rightarrow> Caught err
                      | Inr trimmedBuffer \<Rightarrow>
                          Exported trimmedBuffer
                            \<lparr>href = newBlob [AudioBufferObject trimmedBuffer] ''audio/wav'',
                             filename = ''trimmed-audio.wav''\<rparr>)))
      else Skipped)"

subsection \<open>Trimming as the code computes it: IEEE doubles\<close>

text \<open>
  Every JavaScript number is an IEEE 754 binary64 value, and every arithmetic result is
  rounded to the nearest one, ties to the even significand. \<open>binary64 x\<close> is that
  rounding of the real number \<open>x\<close>: \<open>ilog2 x\<close> is the exponent of \<open>x\<close>
  (\<open>2 ^ ilog2 x \<le> \<bar>x\<bar> < 2 ^ (ilog2 x + 1)\<close>), the spacing of the doubles around \<open>x\<close> is
  \<open>pow2 (ilog2 x - 52)\<close>, and never less than \<open>pow2 (- 1074)\<close>, the spacing of the
  subnormal numbers. Overflow to infinity is not modelled: the numbers of this component
  stay far below \<open>2 ^ 1024\<close>.
\<close>

definition pow2 :: "int \<Rightarrow> real" where
  "pow2 e = (if 0 \<le> e then 2 ^ nat e else 1 / 2 ^ nat (- e))"

text \<open>The exponent of a number other than 0, from the bit length of an integer
  (\<open>bitlen n\<close> is the number of binary digits of \<open>n\<close>).\<close>

definition ilog2 :: "real \<Rightarrow> int" where
  "ilog2 x = (if 1 \<le> \<bar>x\<bar> then bitlen \<lfloor>\<bar>x\<bar>\<rfloor> - 1 else - bitlen (\<lceil>1 / \<bar>x\<bar>\<rceil> - 1))"

text \<open>Rounding to the nearest integer, a tie to the even one.\<close>

definition roundHalfEven :: "real \<Rightarrow> int" where
  "roundHalfEven y =
     (let f = \<lfloor>y\<rfloor>
      in if y - of_int f < 1 / 2 then f
         else if 1 / 2 < y - of_int f then f + 1
         else if even f then f else f + 1)"

text \<open>Rounding to the nearest double.\<close>

definition binary64 :: "real \<Rightarrow> real" where
  "binary64 x =
     (if x = 0 then 0
      else (let e = max (ilog2 x - 52) (- 1074)
            in of_int (roundHalfEven (x / pow2 e)) * pow2 e))"

text \<open>
  \<^verbatim>\<open>handleTrim\<close> again, each quotient, product and difference rounded where the code
  computes it: \<^verbatim>\<open>(start / 100) * duration\<close>, \<^verbatim>\<open>buffer.sampleRate * (endTime - startTime)\<close>,
  \<^verbatim>\<open>startTime * buffer.sampleRate\<close> and \<^verbatim>\<open>endTime * buffer.sampleRate\<close>. The cells of the
  state and the sample rate are doubles already. Everything else is as in \<open>handleTrim\<close>.
\<close>

definition startTime64 :: "controller \<Rightarrow> real" where
  "startTime64 st = binary64 (binary64 (start st / 100) * duration st)"

definition endTime64 :: "controller \<Rightarrow> real" where
  "endTime64 st = binary64 (binary64 (end' st / 100) * duration st)"

function copyChannels64 ::
  "audio_buffer \<Rightarrow> real \<Rightarrow> real \<Rightarrow> nat \<Rightarrow> audio_buffer \<Rightarrow> dom_error + audio_buffer" where
  "copyChannels64 buffer startT endT channel trimmedBuffer =
     (if channel < numberOfChannels buffer
      then (case getChannelData buffer channel of
              Inl err \<Rightarrow> Inl err
            | Inr data \<Rightarrow>
                (case copyToChannel trimmedBuffer
                        (typedArraySlice data (binary64 (startT * sampleRate buffer))
                           (binary64 (endT * sampleRate buffer)))
                        channel of
                   Inl err \<Rightarrow> Inl err
                 | Inr tb \<Rightarrow> copyChannels64 buffer startT endT (channel + 1) tb))
      else Inr trimmedBuffer)"
  by pat_completeness auto
termination
  by (relation "measure (\<lambda>(buffer, startT, endT, channel, tb). numberOfChannels buffer - channel)")
    auto

text \<open>The length \<^verbatim>\<open>handleTrim\<close> asks \<^verbatim>\<open>createBuffer\<close> for.\<close>

definition trimLength64 :: "audio_buffer \<Rightarrow> real \<Rightarrow> real \<Rightarrow> real" where
  "trimLength64 buffer startT endT = binary64 (sampleRate buffer * binary64 (endT - startT))"

definition trimBuffer64 :: "audio_buffer \<Rightarrow> real \<Rightarrow> real \<Rightarrow> dom_error + audio_buffer" where
  "trimBuffer64 buffer startT endT =
     (case createBuffer (numberOfChannels buffer) (trimLength64 buffer startT endT)
             (sampleRate buffer) of
        Inl err \<Rightarrow> Inl err
      | Inr trimmedBuffer \<Rightarrow> copyChannels64 buffer startT endT 0 trimmedBuffer)"

definition handleTrim64 ::
  "(file_id \<Rightarrow> dom_error + audio_buffer) \<Rightarrow> controller \<Rightarrow> controller \<times> trim_outcome" where
  "handleTrim64 decodeAudioData st =
     (st,
      if waveSurferInstance st \<noteq> None \<and> duration st > 0
      then (case audioFile st of
              None \<Rightarrow> Thrown TypeError
            | Some f \<Rightarrow>
                (case decodeAudioData f of
                   Inl err \<Rightarrow> Caught err
                 | Inr buffer \<Rightarrow>
                     (case trimBuffer64 buffer (startTime64 st) (endTime64 st) of
                        Inl err \<Rightarrow> Caught err
                      | Inr trimmedBuffer \<Rightarrow>
                          Exported trimmedBuffer
                            \<lparr>href = newBlob [AudioBufferObject trimmedBuffer] ''audio/wav'',
                             filename = ''trimmed-audio.wav''\<rparr>)))
      else Skipped)"


subsection \<open>The selection and what the sliders offer\<close>

text \<open>The selection is in order when \<open>0 \<le> start \<le> end' \<le> 100\<close>.\<close>

definition selection_ok :: "controller \<Rightarrow> bool" where
  "selection_ok st = (0 \<le> start st \<and> start st \<le> end' st \<and> end' st \<le> 100)"

text \<open>
  The two sliders are rendered only when \<^verbatim>\<open>duration > 0\<close>, the first with
  \<^verbatim>\<open>min={0} max={end}\<close>, the second with \<^verbatim>\<open>min={start} max={100}\<close>: a slider calls
  \<^verbatim>\<open>onChange\<close> with a value between its bounds. Every other event can come at any time.
\<close>

fun offered :: "controller \<Rightarrow> event \<Rightarrow> bool" where
  "offered st (StartSlider v) = (0 < duration st \<and> 0 \<le> v \<and> v \<le> end' st)"
| "offered st (EndSlider v) = (0 < duration st \<and> start st \<le> v \<and> v \<le> 100)"
| "offered st e = True"

fun isReady :: "event \<Rightarrow> bool" where
  "isReady (Ready w d) = True"
| "isReady e = False"

text \<open>Every event of the run is offered in the state it arrives in.\<close>

fun offered_run :: "event list \<Rightarrow> component \<Rightarrow> bool" where
  "offered_run [] c = True"
| "offered_run (e # es) c = (offered (state c) e \<and> offered_run es (dispatch e c))"

fun offered_run_autoplay :: "event list \<Rightarrow> component \<Rightarrow> bool" where
  "offered_run_autoplay [] c = True"
| "offered_run_autoplay (e # es) c =
     (offered (state c) e \<and> offered_run_autoplay es (dispatch_autoplay e c))"

subsection \<open>Concrete inputs\<close>

text \<open>A mono clip of four frames at 48 kHz (a twelve-thousandth of a second), the
  decoder that yields it, and the controller with that clip loaded and a given
  selection.\<close>

definition clip :: audio_buffer where
  "clip = \<lparr>sampleRate = 48000, frames = 4, channelData = [[1/4, 1/2, - (1/4), - (1/2)]]\<rparr>"

definition clip_decoder :: "file_id \<Rightarrow> dom_error + audio_buffer" where
  "clip_decoder f = Inr clip"

definition clip_loaded :: "real \<Rightarrow> real \<Rightarrow> controller" where
  "clip_loaded s e = \<lparr>audioFile = Some 7, waveSurferInstance = Some 0, isPlaying = False,
     duration = 1 / 12000, start = s, end' = e\<rparr>"



definition stereo_loaded :: "real \<Rightarrow> real \<Rightarrow> controller" where
  "stereo_loaded s e = \<lparr>audioFile = Some 7, waveSurferInstance = Some 0, isPlaying = False,
     duration = 10, start = s, end' = e\<rparr>"

definition loaded :: component where
  "loaded = \<lparr>state = stereo_loaded 0 100, cleanup = Some 0, created = 1,
     calls = [Create 0]\<rparr>"

text \<open>The clip loaded with the double nearest to its length in seconds as duration.\<close>

definition clip_loaded64 :: "real \<Rightarrow> real \<Rightarrow> controller" where
  "clip_loaded64 s e = (clip_loaded s e)\<lparr>duration := binary64 (1 / 12000)\<rparr>"



definition short_clip :: audio_buffer where
  "short_clip = \<lparr>sampleRate = 44100, frames = 15,
     channelData =
       [[1/16, 1/8, 3/16, 1/4, 5/16, 3/8, 7/16, 1/2, 9/16, 5/8, 11/16, 3/4, 13/16,
       7/8, 15/16]]\<rparr>"

definition short_loaded :: controller where
  "short_loaded = \<lparr>audioFile = Some 7, waveSurferInstance = Some 0, isPlaying = False,
     duration = binary64 (15 / 44100), start = 0, end' = 100\<rparr>"

section \<open>Properties\<close>

subsection \<open>Evaluation rules and helper lemmas\<close>

lemmas step_eval = handled_def commit_def useEffect_audioFile_def Let_def
  handleFileChange_def handleFileChange_autoplay_def handlePlayPause_def handleReset_def
  onReady_def onReady_autoplay_def onFinish_def setStart_def setEnd_def item0_def
  stopCurrent_def mount_def initial_def

lemmas trim_eval = handleTrim_def trimBuffer_def createBuffer_def toUnsignedLong_def
  toIntegerOrInfinity_def getChannelData_def copyToChannel_def
  typedArraySlice_def relativeIndex_def numberOfChannels_def startTime_def endTime_def
  newBlob_def Let_def

lemmas binary64_eval = binary64_def ilog2_def pow2_def roundHalfEven_def compute_bitlen
  Let_def

lemmas trim64_eval = handleTrim64_def trimBuffer64_def trimLength64_def createBuffer_def
  toUnsignedLong_def toIntegerOrInfinity_def getChannelData_def copyToChannel_def
  typedArraySlice_def relativeIndex_def numberOfChannels_def startTime64_def endTime64_def
  newBlob_def


lemma state_handled:
  "state (handled c r) =
     (if audioFile (fst r) = audioFile (state c) then fst r
      else case audioFile (fst r) of
             None \<Rightarrow> fst r
           | Some f \<Rightarrow> (fst r)\<lparr>waveSurferInstance :=
               Some (created c)\<rparr>)"
  by (simp add: handled_def commit_def useEffect_audioFile_def Let_def
      split: option.splits)

lemma selection_ok_handled:
  "selection_ok (state (handled c r)) = selection_ok (fst r)"
  by (simp add: state_handled selection_ok_def split: option.splits)


lemma trimBuffer_empty:
  "toUnsignedLong (sampleRate buffer * (e - s)) = 0 \<Longrightarrow>
   trimBuffer buffer s e = Inl NotSupportedError"
  by (simp add: trimBuffer_def createBuffer_def)

subsection \<open>Rounding to a double\<close>











lemma binary64_zero: "binary64 0 = 0"
  by (simp add: binary64_def)




subsection \<open>The rounded trim\<close>


lemma trimBuffer64_refused:
  "trimLength64 buffer s e < 1 \<Longrightarrow> trimBuffer64 buffer s e = Inl NotSupportedError"
proof -
  assume l: "trimLength64 buffer s e < 1"
  show ?thesis
  proof (cases "trimLength64 buffer s e < 0")
    case True
    then show ?thesis by (simp add: trimBuffer64_def createBuffer_def)
  next
    case False
    then have "\<lfloor>trimLength64 buffer s e\<rfloor> = 0" using l by linarith
    then have "toUnsignedLong (trimLength64 buffer s e) = 0"
      using False by (simp add: toUnsignedLong_def toIntegerOrInfinity_def)
    then show ?thesis by (simp add: trimBuffer64_def createBuffer_def)
  qed
qed


text \<open>What was shown of \<open>handleTrim\<close> holds of the rounded computation too: the state is
  returned as given, an empty selection is refused and logged, the download is the text
  \<^verbatim>\<open>[object AudioBuffer]\<close>, and on the clip the outcomes are the same.\<close>

lemma handleTrim64_state: "fst (handleTrim64 decodeAudioData st) = st"
  by (simp add: handleTrim64_def)

lemma handleTrim64_empty:
  assumes "waveSurferInstance st \<noteq> None" "0 < duration st" "audioFile st = Some f"
    and "decodeAudioData f = Inr buffer" "start st = end' st"
  shows "handleTrim64 decodeAudioData st = (st, Caught NotSupportedError)"
proof -
  have "startTime64 st = endTime64 st"
    using assms(5) by (simp add: startTime64_def endTime64_def)
  then have "trimLength64 buffer (startTime64 st) (endTime64 st) < 1"
    by (simp add: trimLength64_def binary64_zero)
  then have "trimBuffer64 buffer (startTime64 st) (endTime64 st) = Inl NotSupportedError"
    by (rule trimBuffer64_refused)
  then show ?thesis using assms(1-4) by (simp add: handleTrim64_def)
qed

lemma exported64_download:
  "snd (handleTrim64 decodeAudioData st) = Exported tb dl \<Longrightarrow>
   dl = \<lparr>href = \<lparr>content = ''[object AudioBuffer]'', mimeType = ''audio/wav''\<rparr>,
         filename = ''trimmed-audio.wav''\<rparr>"
  by (auto simp: handleTrim64_def newBlob_def split: if_splits option.splits sum.splits)

lemma rounded_agrees_on_clip:
  "snd (handleTrim64 clip_decoder (clip_loaded64 0 50))
     = snd (handleTrim clip_decoder (clip_loaded 0 50))"
  "snd (handleTrim64 clip_decoder (clip_loaded64 50 100))
     = snd (handleTrim clip_decoder (clip_loaded 50 100))"
  "snd (handleTrim64 clip_decoder (clip_loaded64 0 100))
     = snd (handleTrim clip_decoder (clip_loaded 0 100))"
  "snd (handleTrim64 clip_decoder (clip_loaded64 50 50))
     = snd (handleTrim clip_decoder (clip_loaded 50 50))"
  "snd (handleTrim64 clip_decoder (clip_loaded64 20 20))
     = snd (handleTrim clip_decoder (clip_loaded 20 20))"
  by (simp_all add: trim64_eval trim_eval binary64_eval clip_decoder_def clip_def
      clip_loaded_def clip_loaded64_def)

text \<open>After a file is selected the rounded selection is 0 to the previous duration as
  well (a duration is a double, and rounding leaves a double as it is).\<close>

lemma file_change_times64:
  "startTime64 (fst (handleFileChange (Some fs) st)) = 0
   \<and> endTime64 (fst (handleFileChange (Some fs) st)) = binary64 (duration st)
   \<and> startTime64 (fst (handleFileChange_autoplay (Some fs) st)) = 0
   \<and> endTime64 (fst (handleFileChange_autoplay (Some fs) st)) = binary64 (duration st)"
proof -
  have "binary64 1 = 1" by (simp add: binary64_eval)
  then show ?thesis
    by (simp add: handleFileChange_def handleFileChange_autoplay_def startTime64_def
        endTime64_def binary64_zero split: option.splits)
qed

subsection \<open>Events and the selection\<close>

text \<open>Every event but \<^verbatim>\<open>'ready'\<close> keeps an ordered selection ordered, when it is one the
  rendered component offers.\<close>

lemma dispatch_keeps_selection:
  assumes "selection_ok (state c)" "offered (state c) e" "\<not> isReady e"
  shows "selection_ok (state (dispatch e c))"
proof (cases e)
  case (FileChange files)
  then show ?thesis using assms
    by (simp add: selection_ok_handled)
      (simp add: selection_ok_def handleFileChange_def split: option.splits)
next
  case (Ready w d)
  then show ?thesis using assms by simp
next
  case (Finish w)
  then show ?thesis using assms
    by (simp add: selection_ok_handled) (simp add: selection_ok_def onFinish_def)
next
  case PlayPauseClick
  then show ?thesis using assms
    by (simp add: selection_ok_handled)
      (simp add: selection_ok_def handlePlayPause_def split: option.splits)
next
  case ResetClick
  then show ?thesis using assms
    by (simp add: selection_ok_handled)
      (simp add: selection_ok_def handleReset_def split: option.splits)
next
  case (StartSlider v)
  then show ?thesis using assms
    by (simp add: selection_ok_handled) (simp add: selection_ok_def setStart_def)
next
  case (EndSlider v)
  then show ?thesis using assms
    by (simp add: selection_ok_handled) (simp add: selection_ok_def setEnd_def)
qed

lemma dispatch_autoplay_keeps_selection:
  assumes "selection_ok (state c)" "offered (state c) e" "\<not> isReady e"
  shows "selection_ok (state (dispatch_autoplay e c))"
proof (cases e)
  case (FileChange files)
  then show ?thesis using assms
    by (simp add: selection_ok_handled)
      (simp add: selection_ok_def handleFileChange_autoplay_def split: option.splits)
next
  case (Ready w d)
  then show ?thesis using assms by simp
next
  case (Finish w)
  then show ?thesis using assms
    by (simp add: selection_ok_handled) (simp add: selection_ok_def onFinish_def)
next
  case PlayPauseClick
  then show ?thesis using assms by simp
next
  case ResetClick
  then show ?thesis using assms
    by (simp add: selection_ok_handled)
      (simp add: selection_ok_def handleReset_def split: option.splits)
next
  case (StartSlider v)
  then show ?thesis using assms
    by (simp add: selection_ok_handled) (simp add: selection_ok_def setStart_def)
next
  case (EndSlider v)
  then show ?thesis using assms
    by (simp add: selection_ok_handled) (simp add: selection_ok_def setEnd_def)
qed

lemma run_keeps_selection:
  "selection_ok (state c) \<Longrightarrow> offered_run es c \<Longrightarrow> \<forall>e \<in> set es. \<not> isReady e \<Longrightarrow>
   selection_ok (state (run es c))"
  by (induction es arbitrary: c) (auto intro: dispatch_keeps_selection)

lemma run_autoplay_keeps_selection:
  "selection_ok (state c) \<Longrightarrow> offered_run_autoplay es c \<Longrightarrow>
   \<forall>e \<in> set es. \<not> isReady e \<Longrightarrow> selection_ok (state (run_autoplay es c))"
  by (induction es arbitrary: c) (auto intro: dispatch_autoplay_keeps_selection)

subsection \<open>The ready callback\<close>

text \<open>
  C1. After a file is selected, the \<^verbatim>\<open>'ready'\<close> callback should record the reported
  duration and leave the selection at 0 to 100 percent. Evaluated on the code for a file
  whose player reports ten seconds: the duration is recorded, but \<open>end'\<close> is set to the
  duration, 10, not to 100, in both copies of the component (the second also starts
  playing).
\<close>

theorem ready_sets_end_to_duration:
  "state (run [FileChange (Some [7]), Ready 0 10] mount) =
     \<lparr>audioFile = Some 7, waveSurferInstance = Some 0, isPlaying = False,
      duration = 10, start = 0, end' = 10\<rparr>
   \<and> state (run_autoplay [FileChange (Some [7]), Ready 0 10] mount) =
     \<lparr>audioFile = Some 7, waveSurferInstance = Some 0, isPlaying = True,
      duration = 10, start = 0, end' = 10\<rparr>"
  by (simp add: step_eval)

subsection \<open>Export\<close>

text \<open>Whatever is exported, the bytes of the download are the text
  \<^verbatim>\<open>[object AudioBuffer]\<close> and its name is \<^verbatim>\<open>trimmed-audio.wav\<close>.\<close>

lemma exported_download:
  "snd (handleTrim decodeAudioData st) = Exported tb dl \<Longrightarrow>
   dl = \<lparr>href = \<lparr>content = ''[object AudioBuffer]'', mimeType = ''audio/wav''\<rparr>,
         filename = ''trimmed-audio.wav''\<rparr>"
  by (auto simp: handleTrim_def newBlob_def split: if_splits option.splits sum.splits)

text \<open>
  C2. The export should serialise the samples of the trimmed buffer so that they can be
  read back, under the file name \<^verbatim>\<open>trimmed-audio.wav\<close>. Evaluated on the code for the
  four-frame clip: trimming its first half and trimming its second half give two buffers
  with different samples, and for both the download is the same twenty bytes, the text
  \<^verbatim>\<open>[object AudioBuffer]\<close>; only the file name and the declared type are as claimed.
\<close>

theorem export_bytes_ignore_samples:
  "snd (handleTrim clip_decoder (clip_loaded 0 50)) =
     Exported \<lparr>sampleRate = 48000, frames = 2, channelData = [[1/4, 1/2]]\<rparr>
       \<lparr>href = \<lparr>content = ''[object AudioBuffer]'', mimeType = ''audio/wav''\<rparr>,
        filename = ''trimmed-audio.wav''\<rparr>
   \<and> snd (handleTrim clip_decoder (clip_loaded 50 100)) =
     Exported \<lparr>sampleRate = 48000, frames = 2, channelData = [[- (1/4), - (1/2)]]\<rparr>
       \<lparr>href = \<lparr>content = ''[object AudioBuffer]'', mimeType = ''audio/wav''\<rparr>,
        filename = ''trimmed-audio.wav''\<rparr>"
  by (simp add: trim_eval clip_decoder_def clip_def clip_loaded_def)

subsection \<open>Empty selections\<close>

text \<open>
  Counterexample to C3 as stated (an empty selection gives a zero-frame buffer and a
  zero-length file): with the clip loaded and \<open>start = end' = 50\<close>, \<^verbatim>\<open>handleTrim\<close> exports
  nothing; \<^verbatim>\<open>createBuffer\<close> refuses the zero length and the error ends in the \<^verbatim>\<open>catch\<close>.
\<close>

theorem empty_selection_counterexample:
  "snd (handleTrim clip_decoder (clip_loaded 50 50)) = Caught NotSupportedError"
  by (simp add: trim_eval clip_decoder_def clip_def clip_loaded_def)

text \<open>
  C3, amended. Whenever \<open>start = end'\<close> (with an instance, a positive duration and a
  file that decodes), \<^verbatim>\<open>handleTrim\<close> does not throw to its caller and exports nothing:
  the zero-frame buffer is refused with \<^verbatim>\<open>NotSupportedError\<close>, which the \<^verbatim>\<open>catch\<close> of
  the promise chain logs; the controller state is unchanged.
\<close>

theorem empty_selection_exports_nothing:
  assumes "waveSurferInstance st \<noteq> None" "0 < duration st" "audioFile st = Some f"
    and "decodeAudioData f = Inr buffer" "start st = end' st"
  shows "handleTrim decodeAudioData st = (st, Caught NotSupportedError)"
proof -
  have "startTime st = endTime st"
    using assms(5) by (simp add: startTime_def endTime_def)
  then have "toUnsignedLong (sampleRate buffer * (endTime st - startTime st)) = 0"
    by (simp add: toUnsignedLong_def toIntegerOrInfinity_def)
  then have "trimBuffer buffer (startTime st) (endTime st) = Inl NotSupportedError"
    by (rule trimBuffer_empty)
  then show ?thesis using assms(1-4) by (simp add: handleTrim_def)
qed

text \<open>Witness for C3: the clip with \<open>start = end' = 20\<close>.\<close>

theorem empty_selection_exports_nothing_witness:
  "handleTrim clip_decoder (clip_loaded 20 20) = (clip_loaded 20 20, Caught NotSupportedError)"
  using empty_selection_exports_nothing[of "clip_loaded 20 20" 7 clip_decoder clip]
  by (simp add: clip_decoder_def clip_loaded_def)

subsection \<open>The selection invariant\<close>

text \<open>
  Counterexample to C4 as stated (\<^verbatim>\<open>setStart\<close> clamps what it is given into
  \<open>[0, end']\<close>): the setter stores 150 as it is, and \<open>start\<close> then exceeds \<open>end'\<close>.
\<close>

theorem setStart_stores_unclamped:
  "start (setStart 150 initial) = 150
   \<and> end' (setStart 150 initial) = 100
   \<and> \<not> selection_ok (setStart 150 initial)
   \<and> state (dispatch (StartSlider 150) mount) = setStart 150 initial"
  by (simp add: step_eval selection_ok_def)

text \<open>
  C4, amended. \<^verbatim>\<open>setStart\<close> and \<^verbatim>\<open>setEnd\<close> store their argument unchanged; the bounds
  are those of the sliders, which offer \<open>[0, end']\<close> for \<open>start\<close> and \<open>[start, 100]\<close> for
  \<open>end'\<close>. From any state with \<open>0 \<le> start \<le> end' \<le> 100\<close>, every run of slider updates
  within those bounds, file selections, resets, play/pause calls and finish events ends
  in a state with \<open>0 \<le> start \<le> end' \<le> 100\<close>, in both copies of the component. Runs
  with a \<^verbatim>\<open>'ready'\<close> event are left out.
\<close>

theorem slider_updates_keep_selection_ordered:
  assumes "selection_ok (state c)" "\<forall>e \<in> set es. \<not> isReady e"
  shows "(offered_run es c \<longrightarrow> selection_ok (state (run es c)))
       \<and> (offered_run_autoplay es c \<longrightarrow> selection_ok (state (run_autoplay es c)))"
  using assms run_keeps_selection run_autoplay_keeps_selection by blast

text \<open>Witness for C4: from the ten-second file at 0 to 100, move the end to 50 and the
  start to 20, select another file, move the start to 100, reset.\<close>

theorem slider_updates_keep_selection_ordered_witness:
  "selection_ok (state loaded)
   \<and> offered_run [EndSlider 50, StartSlider 20, FileChange (Some [8]), StartSlider 100,
        ResetClick] loaded
   \<and> state (run [EndSlider 50, StartSlider 20] loaded) = stereo_loaded 20 50
   \<and> selection_ok (state (run [EndSlider 50, StartSlider 20, FileChange (Some [8]),
        StartSlider 100, ResetClick] loaded))
   \<and> selection_ok (state (run_autoplay [EndSlider 50, StartSlider 20, FileChange (Some [8]),
        StartSlider 100, ResetClick] loaded))"
  using slider_updates_keep_selection_ordered[of loaded
      "[EndSlider 50, StartSlider 20, FileChange (Some [8]), StartSlider 100, ResetClick]"]
  by (simp add: step_eval loaded_def stereo_loaded_def selection_ok_def)

subsection \<open>The trimmed buffer\<close>


text \<open>A selection of the last quarter of the four-frame clip, one frame long, exports
  nothing: the length the code computes is just below 1.\<close>

lemma one_frame_selection_refused:
  "snd (handleTrim64 clip_decoder (clip_loaded64 75 100)) = Caught NotSupportedError"
  by (simp add: trim64_eval binary64_eval clip_decoder_def clip_def clip_loaded_def
      clip_loaded64_def)



subsection \<open>The full range\<close>

text \<open>
  C6. Trimming the full range, \<open>start = 0\<close> and \<open>end' = 100\<close>, should export a buffer
  equal to the decoded one. Evaluated on the code for a mono buffer of 15 frames at
  44100 Hz whose duration is the double nearest to \<open>15 / 44100\<close>: the length the code
  computes, \<open>44100 * duration\<close>, is just below 15 and is truncated, so the exported buffer
  has 14 frames and the last sample is lost.
\<close>

theorem full_range_trim_drops_last_frame:
  "frames short_clip = 15
   \<and> snd (handleTrim64 (\<lambda>f. Inr short_clip) short_loaded) =
     Exported \<lparr>sampleRate = 44100, frames = 14,
         channelData =
           [[1/16, 1/8, 3/16, 1/4, 5/16, 3/8, 7/16, 1/2, 9/16, 5/8, 11/16, 3/4,
           13/16, 7/8]]\<rparr>
       \<lparr>href = \<lparr>content = ''[object AudioBuffer]'', mimeType = ''audio/wav''\<rparr>,
        filename = ''trimmed-audio.wav''\<rparr>"
  by (simp add: trim64_eval binary64_eval short_clip_def short_loaded_def)

subsection \<open>Play and pause\<close>




subsection \<open>A ready event of a replaced instance\<close>

text \<open>
  The \<^verbatim>\<open>'ready'\<close> callback writes the state cells without looking at which instance
  it belongs to. When a second file is selected, the effect destroys the first instance
  and creates the second; should the callback of the first instance still run after
  that, it overwrites \<open>duration\<close> and \<open>end'\<close>. Whether a destroyed instance can still
  report \<^verbatim>\<open>'ready'\<close> is decided by the player library, not by this component.
\<close>

lemma ready_callback_unguarded:
  "state (run [FileChange (Some [7]), FileChange (Some [8]), Ready 0 5] mount) =
     \<lparr>audioFile = Some 8, waveSurferInstance = Some 1, isPlaying = False,
      duration = 5, start = 0, end' = 5\<rparr>
   \<and> calls (run [FileChange (Some [7]), FileChange (Some [8]), Ready 0 5] mount) =
     [Create 0, Stop 0, Destroy 0, Create 1]"
  by (simp add: step_eval)

subsection \<open>Trimming and the controller state\<close>

text \<open>
  C9. \<^verbatim>\<open>handleTrim\<close> returns the controller state it was given, whatever the duration
  and whatever the outcome (file, instance, playing flag, duration, start and end are
  all as before), and when the duration is 0 it does nothing at all: no decode, no
  export.
\<close>

theorem trim_leaves_controller_unchanged:
  "fst (handleTrim decodeAudioData st) = st
   \<and> (duration st = 0 \<longrightarrow> snd (handleTrim decodeAudioData st) = Skipped)"
  by (simp add: handleTrim_def)

text \<open>Witness for C9: the clip loaded (positive duration), and the initial state
  (duration 0).\<close>

theorem trim_leaves_controller_unchanged_witness:
  "fst (handleTrim clip_decoder (clip_loaded 0 100)) = clip_loaded 0 100
   \<and> snd (handleTrim clip_decoder (clip_loaded 0 100)) =
     Exported clip
       \<lparr>href = \<lparr>content = ''[object AudioBuffer]'', mimeType = ''audio/wav''\<rparr>,
        filename = ''trimmed-audio.wav''\<rparr>
   \<and> duration initial = 0
   \<and> snd (handleTrim clip_decoder initial) = Skipped"
  using trim_leaves_controller_unchanged[of clip_decoder "clip_loaded 0 100"]
    trim_leaves_controller_unchanged[of clip_decoder initial]
  by (simp add: trim_eval clip_decoder_def clip_def clip_loaded_def initial_def)

subsection \<open>Selecting a file\<close>

text \<open>
  C10. Selecting a file sets \<open>start\<close> to 0 and \<open>end'\<close> to 100 at once and leaves
  \<open>duration\<close> as it was: until the new file's \<^verbatim>\<open>'ready'\<close> callback runs, the selection
  in seconds (what the labels show and what \<^verbatim>\<open>handleTrim\<close> cuts) is 0 to the previous
  file's duration. This holds for both copies of the component, for the handler alone
  and for the handler followed by the effect.
\<close>

theorem file_change_keeps_stale_duration:
  "start (fst (handleFileChange (Some fs) st)) = 0
   \<and> end' (fst (handleFileChange (Some fs) st)) = 100
   \<and> duration (fst (handleFileChange (Some fs) st)) = duration st
   \<and> startTime (fst (handleFileChange (Some fs) st)) = 0
   \<and> endTime (fst (handleFileChange (Some fs) st)) = duration st
   \<and> start (fst (handleFileChange_autoplay (Some fs) st)) = 0
   \<and> end' (fst (handleFileChange_autoplay (Some fs) st)) = 100
   \<and> duration (fst (handleFileChange_autoplay (Some fs) st)) = duration st
   \<and> startTime (fst (handleFileChange_autoplay (Some fs) st)) = 0
   \<and> endTime (fst (handleFileChange_autoplay (Some fs) st)) = duration st
   \<and> start (state (dispatch (FileChange (Some fs)) c)) = 0
   \<and> end' (state (dispatch (FileChange (Some fs)) c)) = 100
   \<and> duration (state (dispatch (FileChange (Some fs)) c)) = duration (state c)
   \<and> endTime (state (dispatch (FileChange (Some fs)) c)) = duration (state c)
   \<and> start (state (dispatch_autoplay (FileChange (Some fs)) c)) = 0
   \<and> end' (state (dispatch_autoplay (FileChange (Some fs)) c)) = 100
   \<and> duration (state (dispatch_autoplay (FileChange (Some fs)) c)) = duration (state c)
   \<and> endTime (state (dispatch_autoplay (FileChange (Some fs)) c)) = duration (state c)"
  by (simp add: state_handled handleFileChange_def handleFileChange_autoplay_def
      startTime_def endTime_def split: option.splits)

end
